theory Spec2Isabelle
  imports Complex_Main "HOL-Library.Log_Nat" "HOL-Library.Sublist"
begin

section \<open>The wallet window's refresh cycle (MainWindow.py)\<close>

text \<open>
  The development embeds \<^verbatim>\<open>MainWindow.refresh_values\<close>: one refresh cycle of the wallet
  window. The method has a single body; the model keeps its order of statements and gives
  a name to each inline expression and each loop body so that it can be stated on its own.
  Python integers are unbounded and are modelled by \<^typ>\<open>int\<close>. Every \<^verbatim>\<open>raise\<close> the body
  can reach is a value of the type \<open>exn\<close>; a cycle returns the exception it ended with
  (if any) together with the widgets as they were left at that moment.
\<close>

subsection \<open>Data: the RPC results and the widgets\<close>

datatype exn =
    RequestFailed string  \<comment> \<open>\<^verbatim>\<open>wallet_connection.request\<close> raised\<close>
  | IndexError            \<comment> \<open>\<^verbatim>\<open>addresses[0]\<close> on an empty list\<close>
  | OverflowError         \<comment> \<open>\<^verbatim>\<open>n/100.\<close>: int too large to convert to float\<close>
  | ValueError            \<comment> \<open>\<^verbatim>\<open>datetime.fromtimestamp\<close> out of range\<close>

record balances =
  availableBalance :: int
  lockedAmount :: int

record status =
  blockCount :: int
  peerCount :: int

record transfer =
  transfer_address :: string  \<comment> \<open>\<^verbatim>\<open>transfer['address']\<close>\<close>
  transfer_amount :: int      \<comment> \<open>\<^verbatim>\<open>transfer['amount']\<close>\<close>

record "transaction" =
  amount :: int
  fee :: int
  unlockTime :: int
  timestamp :: int
  transfers :: "transfer list"

record block =
  transactions :: "transaction list"

text \<open>
  The requests sent over \<^verbatim>\<open>global_variables.wallet_connection\<close>. \<open>GetTransactions\<close>
  carries the three entries of its \<^verbatim>\<open>params\<close> dictionary: \<^verbatim>\<open>blockCount\<close>,
  \<^verbatim>\<open>firstBlockIndex\<close> and \<^verbatim>\<open>addresses\<close>.
\<close>

datatype request =
    GetBalance
  | GetAddresses
  | GetStatus
  | GetTransactions int int "string list"

text \<open>
  The wallet service is an external collaborator: the model takes what each request
  returns (or raises) as given. Responses are taken to be well formed, that is, to carry
  the fields the method reads, with integer amounts.
\<close>

record wallet_connection =
  getBalance :: "exn + balances"
  getAddresses :: "exn + string list"
  getStatus :: "exn + status"
  getTransactions :: "int \<Rightarrow> int \<Rightarrow> string list \<Rightarrow> exn + block list"

text \<open>
  The environment of one cycle: the wallet, and the two results of the clock and time-zone
  libraries that the method formats but does not compute: the local rendering of a
  transaction's timestamp (\<^verbatim>\<open>datetime.fromtimestamp(ts, tz).strftime(...)\<close>, which raises
  on a timestamp out of range) and the time of day at the end of the cycle.
\<close>

record env =
  wallet :: wallet_connection
  localtime :: "int \<Rightarrow> exn + string"
  now :: string

text \<open>One row of \<^verbatim>\<open>HomeTransactionsListStore\<close>, in the order the method appends its columns.\<close>

record row =
  direction :: string
  confirmed :: bool
  displayAmount :: string
  displayTime :: string
  counterpartyAddress :: "string option"

record view =
  AvailableBalanceAmountLabel :: string
  LockedBalanceAmountLabel :: string
  AddressTextBox :: string
  transactions_list_store :: "row list"
  MainStatusLabel :: string

subsection \<open>Decimal rendering\<close>

definition digit :: "nat \<Rightarrow> char" where
  "digit d = ''0123456789'' ! d"

fun digits :: "nat \<Rightarrow> string" where
  "digits n = (if n < 10 then [digit n] else digits (n div 10) @ [digit (n mod 10)])"

declare digits.simps [simp del]

text \<open>\<^verbatim>\<open>str.format\<close> of an integer: \<^verbatim>\<open>"{0}".format(n)\<close>.\<close>

definition str_int :: "int \<Rightarrow> string" where
  "str_int n = (if n < 0 then ''-'' else []) @ digits (nat \<bar>n\<bar>)"

text \<open>The \<^verbatim>\<open>,\<close> option of the format specification: a comma before every group of three digits.\<close>

fun group3 :: "string \<Rightarrow> string" where
  "group3 ds = (if length ds \<le> 3 then ds
     else group3 (take (length ds - 3) ds) @ '','' @ drop (length ds - 3) ds)"

declare group3.simps [simp del]

definition two_digits :: "nat \<Rightarrow> string" where
  "two_digits c = [digit (c div 10), digit (c mod 10)]"

subsection \<open>Double-precision arithmetic of \<^verbatim>\<open>"{:,.2f}".format(n/100.)\<close>\<close>

text \<open>
  The expression divides by the float literal \<^verbatim>\<open>100.\<close>, so the integer is first converted
  to a double, the quotient is a double, and the formatter rounds that double to two
  decimals. A finite double is modelled by the rational number it denotes. Each operation
  is the exact result rounded to the nearest double, ties to the even significand
  (53 bits, exponents down to the subnormal step \<open>2\<^sup>-\<^sup>1\<^sup>0\<^sup>7\<^sup>4\<close>).
\<close>

definition pow2 :: "int \<Rightarrow> rat" where
  "pow2 e = (if 0 \<le> e then 2 ^ nat e else 1 / 2 ^ nat (- e))"

definition round_half_even :: "rat \<Rightarrow> int" where
  "round_half_even x =
     (let f = \<lfloor>x\<rfloor>; d = x - of_int f
      in if d < 1 / 2 then f else if 1 / 2 < d then f + 1 else if even f then f else f + 1)"

text \<open>For \<open>0 < x\<close>, the exponent \<open>e\<close> with \<open>2\<^sup>e \<le> x < 2\<^sup>e\<^sup>+\<^sup>1\<close>.\<close>

definition binary_exponent :: "rat \<Rightarrow> int" where
  "binary_exponent x =
     (let e0 = bitlen (fst (quotient_of x)) - bitlen (snd (quotient_of x))
      in if pow2 e0 \<le> x then e0 else e0 - 1)"

definition round_double :: "rat \<Rightarrow> rat" where
  "round_double x =
     (if x = 0 then 0
      else let u = pow2 (max (binary_exponent \<bar>x\<bar> - 52) (- 1074))
           in sgn x * of_int (round_half_even (\<bar>x\<bar> / u)) * u)"

text \<open>Conversion of a Python integer to a float; it raises when the result is out of range.\<close>

definition float_of_int :: "int \<Rightarrow> exn + rat" where
  "float_of_int n =
     (let y = round_double (of_int n)
      in if 2 ^ 1024 \<le> \<bar>y\<bar> then Inl OverflowError else Inr y)"

text \<open>
  \<^verbatim>\<open>x / 100.\<close> on doubles. The divisor is a nonzero constant and the quotient is smaller
  than \<open>x\<close>, so neither \<^verbatim>\<open>ZeroDivisionError\<close> nor overflow can occur.
\<close>

definition div_100 :: "rat \<Rightarrow> rat" where
  "div_100 x = round_double (x / 100)"

text \<open>
  \<^verbatim>\<open>"{:,.2f}".format(x)\<close>: the decimal expansion of the double with two digits after the
  point, correctly rounded (ties to even), the integer part grouped by commas.
\<close>

definition format_2f :: "rat \<Rightarrow> string" where
  "format_2f x =
     (let c = nat (round_half_even (\<bar>x\<bar> * 100))
      in (if x < 0 then ''-'' else []) @ group3 (digits (c div 100)) @ ''.'' @ two_digits (c mod 100))"

text \<open>The whole expression \<^verbatim>\<open>"{:,.2f}".format(n/100.)\<close> of lines 68, 69 and 113.\<close>

definition format_amount :: "int \<Rightarrow> exn + string" where
  "format_amount n =
     (case float_of_int n of Inl e \<Rightarrow> Inl e | Inr x \<Rightarrow> Inr (format_2f (div_100 x)))"

subsection \<open>The transaction loop (lines 86 to 118)\<close>

text \<open>Lines 93 to 98.\<close>

definition desired_transfer_amount :: "transaction \<Rightarrow> int" where
  "desired_transfer_amount tx =
     (if amount tx < 0 then (amount tx + fee tx) * - 1 else amount tx)"

text \<open>
  Lines 101 to 103: the loop over the transfers, with the variable \<^verbatim>\<open>address\<close> as the
  accumulator. There is no \<^verbatim>\<open>break\<close>.
\<close>

fun find_address :: "string option \<Rightarrow> int \<Rightarrow> transfer list \<Rightarrow> string option" where
  "find_address address d [] = address"
| "find_address address d (t # ts) =
     find_address (if transfer_amount t = d then Some (transfer_address t) else address) d ts"

text \<open>
  Lines 106 to 118: the row of one transaction. \<^verbatim>\<open>unlockTime is 0\<close> compares identities;
  on CPython integers in the small-integer cache are unique objects, so for an integer
  \<^verbatim>\<open>unlockTime\<close> the test is true exactly when the value is \<open>0\<close>. The list literal
  evaluates its entries in order: the amount is formatted before the timestamp.
\<close>

definition make_row :: "env \<Rightarrow> status \<Rightarrow> transaction \<Rightarrow> exn + row" where
  "make_row ev st tx =
     (let address = find_address None (desired_transfer_amount tx) (transfers tx)
      in case format_amount (amount tx) of
           Inl e \<Rightarrow> Inl e
         | Inr a \<Rightarrow>
             (case localtime ev (timestamp tx) of
                Inl e \<Rightarrow> Inl e
              | Inr t \<Rightarrow>
                  Inr \<lparr> direction = (if amount tx > 0 then ''In'' else ''Out''),
                        confirmed = (unlockTime tx = 0 \<or> unlockTime tx \<le> blockCount st - 40),
                        displayAmount = a,
                        displayTime = t,
                        counterpartyAddress = address \<rparr>))"

text \<open>
  Line 90: the loop over one block's transactions, appending to the list store. An
  exception leaves the rows appended so far.
\<close>

fun append_transactions ::
  "env \<Rightarrow> status \<Rightarrow> transaction list \<Rightarrow> row list \<Rightarrow> exn option \<times> row list" where
  "append_transactions ev st [] store = (None, store)"
| "append_transactions ev st (tx # txs) store =
     (case make_row ev st tx of
        Inl e \<Rightarrow> (Some e, store)
      | Inr r \<Rightarrow> append_transactions ev st txs (store @ [r]))"

text \<open>
  Lines 88 and 89: the loop over the blocks, called on \<^verbatim>\<open>reversed(blocks)\<close>. A block
  whose transaction list is empty is skipped by the \<^verbatim>\<open>if\<close>.
\<close>

fun append_blocks ::
  "env \<Rightarrow> status \<Rightarrow> block list \<Rightarrow> row list \<Rightarrow> exn option \<times> row list" where
  "append_blocks ev st [] store = (None, store)"
| "append_blocks ev st (b # bs) store =
     (if transactions b \<noteq> [] then
        (case append_transactions ev st (transactions b) store of
           (Some e, store') \<Rightarrow> (Some e, store')
         | (None, store') \<Rightarrow> append_blocks ev st bs store')
      else append_blocks ev st bs store)"

subsection \<open>The refresh cycle (lines 59 to 120)\<close>

text \<open>Line 120.\<close>

definition status_line :: "env \<Rightarrow> status \<Rightarrow> string" where
  "status_line ev st =
     ''Current block height: '' @ str_int (blockCount st) @ '' | Peer count '' @
     str_int (peerCount st) @ '' | Last Updated '' @ now ev"

text \<open>
  The outcome of a cycle: the exception that ended it (\<open>None\<close> when the method returned),
  the widgets as the cycle left them, and the requests it sent, in order.
\<close>

record outcome =
  raised :: "exn option"
  shown :: view
  requests :: "request list"

definition refresh_values :: "env \<Rightarrow> view \<Rightarrow> outcome" where
  "refresh_values ev v0 =
     (case getBalance (wallet ev) of
        Inl e \<Rightarrow> \<lparr> raised = Some e, shown = v0, requests = [GetBalance] \<rparr>
      | Inr bal \<Rightarrow>
     (case format_amount (availableBalance bal) of
        Inl e \<Rightarrow> \<lparr> raised = Some e, shown = v0, requests = [GetBalance] \<rparr>
      | Inr avail \<Rightarrow>
     let v1 = v0 \<lparr> AvailableBalanceAmountLabel := avail \<rparr> in
     (case format_amount (lockedAmount bal) of
        Inl e \<Rightarrow> \<lparr> raised = Some e, shown = v1, requests = [GetBalance] \<rparr>
      | Inr locked \<Rightarrow>
     let v2 = v1 \<lparr> LockedBalanceAmountLabel := locked \<rparr> in
     (case getAddresses (wallet ev) of
        Inl e \<Rightarrow> \<lparr> raised = Some e, shown = v2, requests = [GetBalance, GetAddresses] \<rparr>
      | Inr addresses \<Rightarrow>
     (case addresses of
        [] \<Rightarrow> \<lparr> raised = Some IndexError, shown = v2, requests = [GetBalance, GetAddresses] \<rparr>
      | a0 # _ \<Rightarrow>
     let v3 = v2 \<lparr> AddressTextBox := a0 \<rparr> in
     (case getStatus (wallet ev) of
        Inl e \<Rightarrow>
          \<lparr> raised = Some e, shown = v3, requests = [GetBalance, GetAddresses, GetStatus] \<rparr>
      | Inr st \<Rightarrow>
     let sent = [GetBalance, GetAddresses, GetStatus,
                 GetTransactions (blockCount st) 1 addresses] in
     (case getTransactions (wallet ev) (blockCount st) 1 addresses of
        Inl e \<Rightarrow> \<lparr> raised = Some e, shown = v3, requests = sent \<rparr>
      | Inr blocks \<Rightarrow>
     let v4 = v3 \<lparr> transactions_list_store := [] \<rparr> in
     (case append_blocks ev st (rev blocks) (transactions_list_store v4) of
        (Some e, store) \<Rightarrow>
          \<lparr> raised = Some e, shown = v4 \<lparr> transactions_list_store := store \<rparr>, requests = sent \<rparr>
      | (None, store) \<Rightarrow>
          \<lparr> raised = None,
            shown = v4 \<lparr> transactions_list_store := store,
                        MainStatusLabel := status_line ev st \<rparr>,
            requests = sent \<rparr>))))))))"

subsection \<open>The rendering the specification asks for\<close>

text \<open>
  This definition follows the specification's words, not the code: the amount divided by
  100, with thousands separators and exactly two decimal places, a negative amount with a
  leading minus sign. It is computed on the integer, without any floating-point step, and
  is what the code's \<open>format_amount\<close> is compared with.
\<close>

definition currency_text :: "int \<Rightarrow> string" where
  "currency_text n =
     (if n < 0 then ''-'' else []) @ group3 (digits (nat \<bar>n\<bar> div 100)) @ ''.'' @
     two_digits (nat \<bar>n\<bar> mod 100)"

subsection \<open>A sample wallet\<close>

text \<open>
  Concrete inputs on which the theorems below are instantiated: three blocks, oldest
  first, holding an outgoing transaction none of whose transfers matches, an incoming
  reward that is not yet mature, a transaction without transfers, and an outgoing
  transaction with two transfers of the wanted amount.
\<close>

definition example_transfers :: "transfer list" where
  "example_transfers =
     [\<lparr> transfer_address = ''A'', transfer_amount = 100 \<rparr>,
      \<lparr> transfer_address = ''B'', transfer_amount = 160 \<rparr>]"

definition example_transaction :: "transaction" where
  "example_transaction =
     \<lparr> amount = - 150, fee = 10, unlockTime = 0, timestamp = 1500000000,
       transfers = example_transfers \<rparr>"

definition tx_in :: "transaction" where
  "tx_in =
     \<lparr> amount = 125000, fee = 0, unlockTime = 61, timestamp = 1500000000,
       transfers = [\<lparr> transfer_address = ''C'', transfer_amount = 125000 \<rparr>] \<rparr>"

definition tx_no_transfers :: "transaction" where
  "tx_no_transfers =
     \<lparr> amount = 0, fee = 0, unlockTime = 60, timestamp = 1500000000, transfers = [] \<rparr>"

definition tx_out_tie :: "transaction" where
  "tx_out_tie =
     \<lparr> amount = - 160, fee = 10, unlockTime = 0, timestamp = 1500000000,
       transfers = [\<lparr> transfer_address = ''A'', transfer_amount = 150 \<rparr>,
                    \<lparr> transfer_address = ''B'', transfer_amount = 150 \<rparr>] \<rparr>"

definition example_blocks :: "block list" where
  "example_blocks =
     [\<lparr> transactions = [example_transaction] \<rparr>,
      \<lparr> transactions = [tx_in] \<rparr>,
      \<lparr> transactions = [tx_no_transfers, tx_out_tie] \<rparr>]"

definition example_status :: status where
  "example_status = \<lparr> blockCount = 100, peerCount = 8 \<rparr>"

definition example_wallet :: wallet_connection where
  "example_wallet =
     \<lparr> getBalance = Inr \<lparr> availableBalance = 125000, lockedAmount = 0 \<rparr>,
       getAddresses = Inr [''TRTLmain'', ''TRTLsecond''],
       getStatus = Inr example_status,
       getTransactions = (\<lambda>bc first addrs. Inr example_blocks) \<rparr>"

definition example_time :: string where
  "example_time = ''2017/07/14 02:40:00+0000 (UTC)''"

definition example_env :: env where
  "example_env =
     \<lparr> wallet = example_wallet,
       localtime = (\<lambda>ts. if 0 \<le> ts then Inr example_time else Inl ValueError),
       now = ''12:00:00'' \<rparr>"

text \<open>The widgets as an earlier cycle left them.\<close>

definition example_view :: view where
  "example_view =
     \<lparr> AvailableBalanceAmountLabel = ''9.99'',
       LockedBalanceAmountLabel = ''1.11'',
       AddressTextBox = ''TRTLold'',
       transactions_list_store =
         [\<lparr> direction = ''In'', confirmed = True, displayAmount = ''9.99'',
            displayTime = example_time, counterpartyAddress = None \<rparr>],
       MainStatusLabel = ''old status'' \<rparr>"

text \<open>The sample wallet with one request made to fail.\<close>

definition failing_wallet :: "request \<Rightarrow> wallet_connection" where
  "failing_wallet r =
     (case r of
        GetBalance \<Rightarrow> example_wallet \<lparr> getBalance := Inl (RequestFailed ''getBalance'') \<rparr>
      | GetAddresses \<Rightarrow> example_wallet \<lparr> getAddresses := Inl (RequestFailed ''getAddresses'') \<rparr>
      | GetStatus \<Rightarrow> example_wallet \<lparr> getStatus := Inl (RequestFailed ''getStatus'') \<rparr>
      | GetTransactions bc first addrs \<Rightarrow>
          example_wallet \<lparr> getTransactions :=
            (\<lambda>bc first addrs. Inl (RequestFailed ''getTransactions'')) \<rparr>)"

section \<open>Properties\<close>

subsection \<open>Rounding to the nearest double\<close>

lemma pow2_powi: "pow2 e = 2 powi e"
  by (simp add: pow2_def power_int_def inverse_eq_divide power_one_over)

lemma pow2_pos: "0 < pow2 e"
  by (simp add: pow2_powi)

lemma pow2_mono: "a \<le> b \<Longrightarrow> pow2 a \<le> pow2 b"
  by (simp add: pow2_powi power_int_increasing)

lemma pow2_less_cancel: "pow2 a < pow2 b \<Longrightarrow> a < b"
  using pow2_mono [of b a] by (cases "a < b") auto

lemma pow2_diff: "pow2 (a - b) = pow2 a / pow2 b"
  by (simp add: pow2_powi power_int_diff)

lemma pow2_nat: "0 \<le> e \<Longrightarrow> pow2 e = 2 ^ nat e"
  by (simp add: pow2_def)

lemma binary_exponent_bounds:
  assumes "0 < x"
  shows "pow2 (binary_exponent x) \<le> x" and "x < pow2 (binary_exponent x + 1)"
proof -
  define a where "a = fst (quotient_of x)"
  define b where "b = snd (quotient_of x)"
  have b: "0 < b" unfolding b_def by (rule quotient_of_denom_pos')
  have x: "x = of_int a / of_int b"
    unfolding a_def b_def by (rule quotient_of_div) simp
  with assms b have a: "0 < a"
    by (simp add: zero_less_divide_iff)
  from bitlen_bounds [OF a] have a1: "2 ^ nat (bitlen a - 1) \<le> a" and a2: "a < 2 ^ nat (bitlen a)"
    by auto
  from bitlen_bounds [OF b] have b1: "2 ^ nat (bitlen b - 1) \<le> b" and b2: "b < 2 ^ nat (bitlen b)"
    by auto
  have la: "1 \<le> bitlen a" and lb: "1 \<le> bitlen b"
    using a b bitlen_eq_zero_iff [of a] bitlen_eq_zero_iff [of b] bitlen_nonneg [of a]
      bitlen_nonneg [of b] by linarith+
  have ra1: "pow2 (bitlen a - 1) \<le> of_int a"
    using a1 la by (simp add: pow2_nat)
  have ra2: "of_int a < pow2 (bitlen a)"
    using a2 la by (simp add: pow2_nat)
  have rb1: "pow2 (bitlen b - 1) \<le> of_int b"
    using b1 lb by (simp add: pow2_nat)
  have rb2: "of_int b < pow2 (bitlen b)"
    using b2 lb by (simp add: pow2_nat)
  have rb: "(0::rat) < of_int b" and ra: "(0::rat) < of_int a" using a b by simp_all
  have lo: "pow2 (bitlen a - bitlen b - 1) \<le> x"
  proof -
    have "pow2 (bitlen a - bitlen b - 1) = pow2 (bitlen a - 1) / pow2 (bitlen b)"
      using pow2_diff [of "bitlen a - 1" "bitlen b"] by (simp add: algebra_simps)
    also have "\<dots> \<le> of_int a / of_int b"
      using ra1 rb2 rb ra pow2_pos [of "bitlen a - 1"] by (intro frac_le) auto
    finally show ?thesis by (simp add: x)
  qed
  have hi: "x < pow2 (bitlen a - bitlen b + 1)"
  proof -
    have "of_int a / of_int b < pow2 (bitlen a) / pow2 (bitlen b - 1)"
      using ra2 rb1 ra pow2_pos [of "bitlen b - 1"] by (intro frac_less) auto
    also have "\<dots> = pow2 (bitlen a - bitlen b + 1)"
      using pow2_diff [of "bitlen a" "bitlen b - 1"] by (simp add: algebra_simps)
    finally show ?thesis by (simp add: x)
  qed
  show "pow2 (binary_exponent x) \<le> x"
    using lo by (simp add: binary_exponent_def Let_def a_def b_def)
  show "x < pow2 (binary_exponent x + 1)"
    using hi by (auto simp: binary_exponent_def Let_def a_def b_def not_le)
qed

lemma binary_exponent_less: "0 < x \<Longrightarrow> x < pow2 k \<Longrightarrow> binary_exponent x < k"
  using binary_exponent_bounds(1) [of x] by (intro pow2_less_cancel) simp

lemma round_half_even_err: "\<bar>of_int (round_half_even x) - x\<bar> \<le> 1 / 2"
proof -
  have "of_int \<lfloor>x\<rfloor> \<le> x" "x < of_int \<lfloor>x\<rfloor> + 1" by linarith+
  then show ?thesis
    by (auto simp: round_half_even_def Let_def)
qed

lemma round_half_even_near:
  assumes "\<bar>x - of_int k\<bar> < 1 / 2"
  shows "round_half_even x = k"
proof (cases "of_int k \<le> x")
  case True
  with assms have "\<lfloor>x\<rfloor> = k" by (intro floor_unique) auto
  with assms True show ?thesis by (simp add: round_half_even_def Let_def)
next
  case False
  with assms have f: "\<lfloor>x\<rfloor> = k - 1" by (intro floor_unique) auto
  from False assms have "1 / 2 < x - of_int (k - 1)" by simp
  with f show ?thesis by (simp add: round_half_even_def Let_def)
qed

lemma round_double_err:
  assumes "x \<noteq> 0" "\<bar>x\<bar> < pow2 k" "- 1021 \<le> k"
  shows "\<exists>y. round_double x = sgn x * y \<and> 0 \<le> y \<and> \<bar>y - \<bar>x\<bar>\<bar> \<le> pow2 (k - 53) / 2"
proof -
  define u where "u = pow2 (max (binary_exponent \<bar>x\<bar> - 52) (- 1074))"
  define m where "m = round_half_even (\<bar>x\<bar> / u)"
  have u: "0 < u" unfolding u_def by (rule pow2_pos)
  from assms have "binary_exponent \<bar>x\<bar> < k" by (intro binary_exponent_less) auto
  with assms(3) have "max (binary_exponent \<bar>x\<bar> - 52) (- 1074) \<le> k - 53" by simp
  then have uk: "u \<le> pow2 (k - 53)" unfolding u_def by (rule pow2_mono)
  have "\<bar>of_int m - \<bar>x\<bar> / u\<bar> \<le> 1 / 2" unfolding m_def by (rule round_half_even_err)
  then have "\<bar>of_int m - \<bar>x\<bar> / u\<bar> * u \<le> 1 / 2 * u"
    using u by (intro mult_right_mono) auto
  moreover have "\<bar>of_int m - \<bar>x\<bar> / u\<bar> * u = \<bar>of_int m * u - \<bar>x\<bar>\<bar>"
    using u by (simp add: abs_mult_pos [symmetric] field_simps del: abs_mult_pos)
  ultimately have e: "\<bar>of_int m * u - \<bar>x\<bar>\<bar> \<le> pow2 (k - 53) / 2"
    using uk by simp
  have "0 \<le> \<bar>x\<bar> / u" using u by simp
  then have "- (1 / 2) \<le> (of_int m :: rat)"
    using round_half_even_err [of "\<bar>x\<bar> / u"] unfolding m_def by linarith
  then have "- 1 < (of_int m :: rat)" by linarith
  then have "- 1 < m" by (simp)
  then have "0 \<le> m" by simp
  then have m0: "0 \<le> (of_int m :: rat) * u" using u by simp
  have "round_double x = sgn x * (of_int m * u)"
    using assms(1) by (simp add: round_double_def Let_def u_def m_def mult.assoc)
  with e m0 show ?thesis by blast
qed

lemma round_double_of_int:
  assumes "\<bar>n\<bar> < 2 ^ 53"
  shows "round_double (of_int n) = of_int n"
proof (cases "n = 0")
  case True
  then show ?thesis by (simp add: round_double_def)
next
  case False
  define x :: rat where "x = of_int n"
  define e where "e = max (binary_exponent \<bar>x\<bar> - 52) (- 1074)"
  have x0: "x \<noteq> 0" "0 < \<bar>x\<bar>" using False by (simp_all add: x_def)
  have "\<bar>x\<bar> < 2 ^ 53"
    using assms unfolding x_def
    by (metis of_int_abs of_int_less_numeral_power_cancel_iff)
  then have "\<bar>x\<bar> < pow2 53" by (simp add: pow2_def)
  with x0 have "binary_exponent \<bar>x\<bar> < 53" by (intro binary_exponent_less)
  then have e: "e \<le> 0" by (simp add: e_def)
  then have u: "pow2 e = 1 / 2 ^ nat (- e)"
    by (cases "e = 0") (simp_all add: pow2_def)
  have "\<bar>x\<bar> / pow2 e = of_int (\<bar>n\<bar> * 2 ^ nat (- e))"
    by (simp add: u x_def)
  then have "round_half_even (\<bar>x\<bar> / pow2 e) = \<bar>n\<bar> * 2 ^ nat (- e)"
    by (simp add: round_half_even_near)
  then have "round_double x = sgn x * of_int (\<bar>n\<bar> * 2 ^ nat (- e)) * pow2 e"
    using x0 by (simp add: round_double_def Let_def e_def)
  also have "\<dots> = sgn x * \<bar>x\<bar>"
    by (simp add: u x_def)
  also have "\<dots> = x" by (rule sgn_mult_abs)
  finally show ?thesis by (simp add: x_def)
qed

lemma float_of_int_exact:
  assumes "\<bar>n\<bar> < 2 ^ 53"
  shows "float_of_int n = Inr (of_int n)"
proof -
  have "\<bar>of_int n :: rat\<bar> < 2 ^ 53"
    using assms by (metis of_int_abs of_int_less_numeral_power_cancel_iff)
  also have "(2::rat) ^ 53 \<le> 2 ^ 1024" by (rule power_increasing) simp_all
  finally have "\<not> (2::rat) ^ 1024 \<le> \<bar>of_int n\<bar>" by simp
  then show ?thesis
    by (simp only: float_of_int_def Let_def round_double_of_int [OF assms] if_False)
qed

lemma format_2f_cents:
  assumes "0 \<le> y" "\<bar>y * 100 - of_int c\<bar> < 1 / 2" "0 \<le> c" "r = (if neg then - y else y)"
    "neg \<longrightarrow> 0 < y"
  shows "format_2f r =
     (if neg then ''-'' else []) @ group3 (digits (nat c div 100)) @ ''.'' @
     two_digits (nat c mod 100)"
proof -
  have a: "\<bar>r\<bar> = y" using assms by auto
  have c: "round_half_even (\<bar>r\<bar> * 100) = c"
    unfolding a using assms(2) by (rule round_half_even_near)
  have n: "(r < 0) = neg" using assms by auto
  show ?thesis by (simp only: format_2f_def Let_def c n)
qed

lemma format_amount_exact:
  assumes "\<bar>n\<bar> < 100 * 2 ^ 46"
  shows "format_amount n = Inr (currency_text n)"
proof -
  have "\<bar>n\<bar> < 2 ^ 53" using assms by simp
  then have f: "float_of_int n = Inr (of_int n)" by (rule float_of_int_exact)
  have "div_100 (of_int n) = round_double (of_int n / 100)" by (simp add: div_100_def)
  show ?thesis
  proof (cases "n = 0")
    case True
    have "format_2f 0 = (if False then ''-'' else []) @ group3 (digits (nat 0 div 100)) @
        ''.'' @ two_digits (nat 0 mod 100)"
      by (rule format_2f_cents [where y = 0]) simp_all
    then have z: "format_2f 0 = currency_text 0"
      by (simp add: currency_text_def)
    have "div_100 0 = 0" by (simp add: div_100_def round_double_def)
    with z f show ?thesis
      unfolding True by (simp add: format_amount_def)
  next
    case False
    define x :: rat where "x = of_int n / 100"
    have x0: "x \<noteq> 0" using False by (simp add: x_def)
    have ax: "\<bar>x\<bar> = of_int \<bar>n\<bar> / 100" by (simp add: x_def)
    have "(of_int \<bar>n\<bar> :: rat) < of_int (100 * 2 ^ 46)"
      using assms by (simp only: of_int_less_iff)
    then have "\<bar>x\<bar> < 2 ^ 46" by (simp add: ax)
    then have "\<bar>x\<bar> < pow2 46" by (simp add: pow2_def)
    from round_double_err [OF x0 this] obtain y where
      y: "round_double x = sgn x * y" "0 \<le> y" "\<bar>y - \<bar>x\<bar>\<bar> \<le> pow2 (- 7) / 2"
      by auto
    have p: "pow2 (- 7) / 2 = 1 / 256" by (simp add: pow2_def)
    have "1 \<le> \<bar>n\<bar>" using False by simp
    then have "(of_int 1 :: rat) \<le> of_int \<bar>n\<bar>" by (simp only: of_int_le_iff)
    then have lo: "1 / 100 \<le> \<bar>x\<bar>" by (simp add: ax)
    with y(3) p have ypos: "0 < y" by linarith
    have "of_int \<bar>n\<bar> = 100 * \<bar>x\<bar>" by (simp add: ax)
    then have "y * 100 - of_int \<bar>n\<bar> = 100 * (y - \<bar>x\<bar>)"
      by (simp add: algebra_simps)
    then have "\<bar>y * 100 - of_int \<bar>n\<bar>\<bar> = \<bar>100 * (y - \<bar>x\<bar>)\<bar>"
      by (simp only:)
    also have "\<dots> = 100 * \<bar>y - \<bar>x\<bar>\<bar>"
      by (subst abs_mult) simp
    finally have eq: "\<bar>y * 100 - of_int \<bar>n\<bar>\<bar> = 100 * \<bar>y - \<bar>x\<bar>\<bar>" .
    have d: "\<bar>y - \<bar>x\<bar>\<bar> \<le> 1 / 256" using y(3) unfolding p .
    have "100 * \<bar>y - \<bar>x\<bar>\<bar> \<le> 100 * (1 / 256)"
      using d by (rule mult_left_mono) simp
    then have near: "\<bar>y * 100 - of_int \<bar>n\<bar>\<bar> < 1 / 2"
      unfolding eq by simp
    have sg: "sgn x * y = (if n < 0 then - y else y)"
      using False by (simp add: x_def sgn_if)
    have "format_2f (round_double x) = currency_text n"
      unfolding currency_text_def
      using ypos by (intro format_2f_cents [OF y(2) near _ _]) (simp_all add: y(1) sg)
    with f show ?thesis
      by (simp add: format_amount_def div_100_def x_def)
  qed
qed

lemmas render_simps =
  currency_text_def str_int_def digits.simps group3.simps two_digits_def digit_def

lemma format_amount_examples:
  "format_amount 125000 = Inr ''1,250.00''"
  "format_amount 0 = Inr ''0.00''"
  "format_amount (- 125000) = Inr ''-1,250.00''"
  "format_amount (- 150) = Inr ''-1.50''"
  "format_amount (- 160) = Inr ''-1.60''"
  by (simp_all add: format_amount_exact render_simps)

lemma binary_exponent_unique:
  assumes "0 < x" "pow2 e \<le> x" "x < pow2 (e + 1)"
  shows "binary_exponent x = e"
proof -
  from binary_exponent_bounds [OF assms(1)] assms(2,3)
  have h: "pow2 (binary_exponent x) < pow2 (e + 1)" "pow2 e < pow2 (binary_exponent x + 1)"
    by linarith+
  have "binary_exponent x < e + 1" using h(1) by (rule pow2_less_cancel)
  moreover have "e < binary_exponent x + 1" using h(2) by (rule pow2_less_cancel)
  ultimately show ?thesis by simp
qed

lemma round_double_nearest:
  assumes "0 < x" "pow2 e \<le> x" "x < pow2 (e + 1)" "- 1022 \<le> e"
    "\<bar>x / pow2 (e - 52) - of_int m\<bar> < 1 / 2"
  shows "round_double x = of_int m * pow2 (e - 52)"
proof -
  have b: "binary_exponent x = e"
    using assms(1-3) by (rule binary_exponent_unique)
  have m: "max (e - 52) (- 1074) = e - 52" using assms(4) by simp
  have r: "round_half_even (x / pow2 (e - 52)) = m"
    using assms(5) by (rule round_half_even_near)
  have a: "\<bar>x\<bar> = x" "sgn x = 1" "x \<noteq> 0" using assms(1) by simp_all
  show ?thesis
    by (simp only: round_double_def Let_def a b m r if_False mult_1)
qed

text \<open>Two evaluations of the model beyond the range in which it is exact.\<close>

lemma div_100_boundary: "div_100 7036874417766401 = 4503599627370497 / 64"
  unfolding div_100_def
  using round_double_nearest [of "7036874417766401 / 100" 46 4503599627370497]
  by (simp add: pow2_def)

lemma format_2f_boundary: "format_2f (4503599627370497 / 64) = ''70,368,744,177,664.02''"
  using format_2f_cents [of "4503599627370497 / 64" 7036874417766402 "4503599627370497 / 64" False]
  by (simp add: render_simps)

lemma format_amount_boundary:
  "format_amount 7036874417766401 = Inr ''70,368,744,177,664.02''"
  using float_of_int_exact [of 7036874417766401]
  by (simp add: format_amount_def div_100_boundary format_2f_boundary)

lemma round_double_huge: "round_double (2 ^ 1024) = 2 ^ 1024"
  using round_double_nearest [of "2 ^ 1024" 1024 "2 ^ 52"]
  by (simp add: pow2_def)

lemma format_amount_overflow: "format_amount (2 ^ 1024) = Inl OverflowError"
proof -
  have "round_double (of_int (2 ^ 1024)) = 2 ^ 1024"
    by (simp only: of_int_power of_int_numeral round_double_huge)
  then have "float_of_int (2 ^ 1024) = Inl OverflowError"
    by (simp only: float_of_int_def Let_def) simp
  then show ?thesis by (simp only: format_amount_def sum.case)
qed

subsection \<open>The loops\<close>


lemma make_row_Inr:
  "make_row ev st tx = Inr r \<Longrightarrow>
     \<exists>a t. format_amount (amount tx) = Inr a \<and> localtime ev (timestamp tx) = Inr t \<and>
       r = \<lparr> direction = (if amount tx > 0 then ''In'' else ''Out''),
             confirmed = (unlockTime tx = 0 \<or> unlockTime tx \<le> blockCount st - 40),
             displayAmount = a, displayTime = t,
             counterpartyAddress =
               find_address None (desired_transfer_amount tx) (transfers tx) \<rparr>"
  by (auto simp: make_row_def Let_def split: sum.splits)

lemma append_transactions_rows:
  "append_transactions ev st txs store = (x, store') \<Longrightarrow>
     \<exists>rows. store' = store @ rows \<and>
       prefix (map Inr rows) (map (make_row ev st) txs) \<and>
       (x = None \<longrightarrow> map Inr rows = map (make_row ev st) txs)"
proof (induction txs arbitrary: store)
  case Nil
  then show ?case by simp
next
  case (Cons tx txs)
  show ?case
  proof (cases "make_row ev st tx")
    case (Inl e)
    with Cons.prems show ?thesis by auto
  next
    case (Inr r)
    with Cons.prems have "append_transactions ev st txs (store @ [r]) = (x, store')"
      by simp
    from Cons.IH [OF this] obtain rows where
      "store' = (store @ [r]) @ rows"
      "prefix (map Inr rows) (map (make_row ev st) txs)"
      "x = None \<longrightarrow> map Inr rows = map (make_row ev st) txs"
      by blast
    with Inr show ?thesis
      by (intro exI [of _ "r # rows"]) simp
  qed
qed

lemma append_blocks_rows:
  "append_blocks ev st bs store = (x, store') \<Longrightarrow>
     \<exists>rows. store' = store @ rows \<and>
       prefix (map Inr rows) (concat (map (\<lambda>b. map (make_row ev st) (transactions b)) bs)) \<and>
       (x = None \<longrightarrow>
          map Inr rows = concat (map (\<lambda>b. map (make_row ev st) (transactions b)) bs))"
proof (induction bs arbitrary: store)
  case Nil
  then show ?case by simp
next
  case (Cons b bs)
  obtain y s1 where at: "append_transactions ev st (transactions b) store = (y, s1)"
    by (cases "append_transactions ev st (transactions b) store")
  from append_transactions_rows [OF at] obtain r1 where r1:
    "s1 = store @ r1" "prefix (map Inr r1) (map (make_row ev st) (transactions b))"
    "y = None \<longrightarrow> map Inr r1 = map (make_row ev st) (transactions b)"
    by blast
  show ?case
  proof (cases y)
    case None
    have "append_blocks ev st bs s1 = (x, store')"
    proof (cases "transactions b = []")
      case True
      with at have "s1 = store" by simp
      with True Cons.prems show ?thesis by simp
    next
      case False
      with at None Cons.prems show ?thesis by simp
    qed
    from Cons.IH [OF this] obtain r2 where r2:
      "store' = s1 @ r2"
      "prefix (map Inr r2) (concat (map (\<lambda>b. map (make_row ev st) (transactions b)) bs))"
      "x = None \<longrightarrow>
         map Inr r2 = concat (map (\<lambda>b. map (make_row ev st) (transactions b)) bs)"
      by blast
    from None r1 have eq1: "map Inr r1 = map (make_row ev st) (transactions b)" by simp
    show ?thesis
      using r1(1) r2 eq1 by (intro exI [of _ "r1 @ r2"]) simp
  next
    case (Some e)
    with at have ne: "transactions b \<noteq> []" by (cases "transactions b") auto
    with at Some Cons.prems have "x = Some e" "store' = s1" by auto
    with r1 show ?thesis
      by (intro exI [of _ r1]) (auto intro: prefix_order.trans)
  qed
qed

subsection \<open>The cycle\<close>

lemma refresh_values_completed:
  assumes "raised (refresh_values ev v) = None"
  shows "\<exists>bal a l a0 as st blocks store.
     getBalance (wallet ev) = Inr bal \<and>
     format_amount (availableBalance bal) = Inr a \<and>
     format_amount (lockedAmount bal) = Inr l \<and>
     getAddresses (wallet ev) = Inr (a0 # as) \<and>
     getStatus (wallet ev) = Inr st \<and>
     getTransactions (wallet ev) (blockCount st) 1 (a0 # as) = Inr blocks \<and>
     append_blocks ev st (rev blocks) [] = (None, store) \<and>
     refresh_values ev v =
       \<lparr> raised = None,
         shown = v \<lparr> AvailableBalanceAmountLabel := a, LockedBalanceAmountLabel := l,
                     AddressTextBox := a0, transactions_list_store := store,
                     MainStatusLabel := status_line ev st \<rparr>,
         requests = [GetBalance, GetAddresses, GetStatus,
                     GetTransactions (blockCount st) 1 (a0 # as)] \<rparr>"
  using assms unfolding refresh_values_def Let_def
  by (auto split: sum.splits list.splits prod.splits option.splits)

lemma refresh_values_fetched:
  assumes "getBalance (wallet ev) = Inr bal"
    "format_amount (availableBalance bal) = Inr a"
    "format_amount (lockedAmount bal) = Inr l"
    "getAddresses (wallet ev) = Inr (a0 # as)"
    "getStatus (wallet ev) = Inr st"
    "getTransactions (wallet ev) (blockCount st) 1 (a0 # as) = Inr blocks"
    "append_blocks ev st (rev blocks) [] = (x, store)"
  shows "refresh_values ev v =
       \<lparr> raised = x,
         shown = (if x = None
           then v \<lparr> AvailableBalanceAmountLabel := a, LockedBalanceAmountLabel := l,
                    AddressTextBox := a0, transactions_list_store := store,
                    MainStatusLabel := status_line ev st \<rparr>
           else v \<lparr> AvailableBalanceAmountLabel := a, LockedBalanceAmountLabel := l,
                    AddressTextBox := a0, transactions_list_store := store \<rparr>),
         requests = [GetBalance, GetAddresses, GetStatus,
                     GetTransactions (blockCount st) 1 (a0 # as)] \<rparr>"
  using assms unfolding refresh_values_def Let_def
  by (cases x) simp_all

lemma completed_rows:
  assumes "getAddresses (wallet ev) = Inr addrs" "getStatus (wallet ev) = Inr st"
    "getTransactions (wallet ev) (blockCount st) 1 addrs = Inr blocks"
    "raised (refresh_values ev v) = None"
  shows "map Inr (transactions_list_store (shown (refresh_values ev v))) =
     concat (map (\<lambda>b. map (make_row ev st) (transactions b)) (rev blocks))"
proof -
  from refresh_values_completed [OF assms(4)] assms(1-3)
  obtain store where s: "append_blocks ev st (rev blocks) [] = (None, store)"
    and r: "transactions_list_store (shown (refresh_values ev v)) = store"
    by auto
  from append_blocks_rows [OF s] show ?thesis
    by (simp add: r)
qed

subsection \<open>The sample wallet, evaluated\<close>

lemma example_rows:
  "make_row example_env example_status example_transaction =
     Inr \<lparr> direction = ''Out'', confirmed = True, displayAmount = ''-1.50'',
           displayTime = example_time, counterpartyAddress = None \<rparr>"
  "make_row example_env example_status tx_in =
     Inr \<lparr> direction = ''In'', confirmed = False, displayAmount = ''1,250.00'',
           displayTime = example_time, counterpartyAddress = Some ''C'' \<rparr>"
  "make_row example_env example_status tx_no_transfers =
     Inr \<lparr> direction = ''Out'', confirmed = True, displayAmount = ''0.00'',
           displayTime = example_time, counterpartyAddress = None \<rparr>"
  "make_row example_env example_status tx_out_tie =
     Inr \<lparr> direction = ''Out'', confirmed = True, displayAmount = ''-1.60'',
           displayTime = example_time, counterpartyAddress = Some ''B'' \<rparr>"
  by (simp_all add: make_row_def desired_transfer_amount_def format_amount_examples
      example_env_def example_status_def example_transaction_def example_transfers_def
      tx_in_def tx_no_transfers_def tx_out_tie_def)

lemma example_fetch:
  "wallet example_env = example_wallet"
  "now example_env = ''12:00:00''"
  "getBalance example_wallet = Inr \<lparr> availableBalance = 125000, lockedAmount = 0 \<rparr>"
  "getAddresses example_wallet = Inr [''TRTLmain'', ''TRTLsecond'']"
  "getStatus example_wallet = Inr example_status"
  "getTransactions example_wallet bc first addrs = Inr example_blocks"
  "blockCount example_status = 100"
  "peerCount example_status = 8"
  by (simp_all add: example_env_def example_wallet_def example_status_def)

lemma example_loop:
  "append_blocks example_env example_status (rev example_blocks) [] =
     (None,
      [\<lparr> direction = ''Out'', confirmed = True, displayAmount = ''0.00'',
         displayTime = example_time, counterpartyAddress = None \<rparr>,
       \<lparr> direction = ''Out'', confirmed = True, displayAmount = ''-1.60'',
         displayTime = example_time, counterpartyAddress = Some ''B'' \<rparr>,
       \<lparr> direction = ''In'', confirmed = False, displayAmount = ''1,250.00'',
         displayTime = example_time, counterpartyAddress = Some ''C'' \<rparr>,
       \<lparr> direction = ''Out'', confirmed = True, displayAmount = ''-1.50'',
         displayTime = example_time, counterpartyAddress = None \<rparr>])"
  by (simp add: example_blocks_def example_rows)

lemma example_status_line:
  "status_line example_env example_status =
     ''Current block height: 100 | Peer count 8 | Last Updated 12:00:00''"
  by (simp add: status_line_def example_fetch render_simps)

lemma example_cycle:
  "refresh_values example_env example_view =
     \<lparr> raised = None,
       shown =
         \<lparr> AvailableBalanceAmountLabel = ''1,250.00'',
           LockedBalanceAmountLabel = ''0.00'',
           AddressTextBox = ''TRTLmain'',
           transactions_list_store =
             [\<lparr> direction = ''Out'', confirmed = True, displayAmount = ''0.00'',
                displayTime = example_time, counterpartyAddress = None \<rparr>,
              \<lparr> direction = ''Out'', confirmed = True, displayAmount = ''-1.60'',
                displayTime = example_time, counterpartyAddress = Some ''B'' \<rparr>,
              \<lparr> direction = ''In'', confirmed = False, displayAmount = ''1,250.00'',
                displayTime = example_time, counterpartyAddress = Some ''C'' \<rparr>,
              \<lparr> direction = ''Out'', confirmed = True, displayAmount = ''-1.50'',
                displayTime = example_time, counterpartyAddress = None \<rparr>],
           MainStatusLabel =
             ''Current block height: 100 | Peer count 8 | Last Updated 12:00:00'' \<rparr>,
       requests = [GetBalance, GetAddresses, GetStatus,
                   GetTransactions 100 1 [''TRTLmain'', ''TRTLsecond'']] \<rparr>"
proof -
  have "refresh_values example_env example_view =
       \<lparr> raised = None,
         shown = (if (None :: exn option) = None
           then example_view \<lparr> AvailableBalanceAmountLabel := ''1,250.00'',
                    LockedBalanceAmountLabel := ''0.00'',
                    AddressTextBox := ''TRTLmain'',
                    transactions_list_store := snd (append_blocks example_env example_status (rev example_blocks) []),
                    MainStatusLabel := status_line example_env example_status \<rparr>
           else example_view \<lparr> AvailableBalanceAmountLabel := ''1,250.00'',
                    LockedBalanceAmountLabel := ''0.00'',
                    AddressTextBox := ''TRTLmain'',
                    transactions_list_store := snd (append_blocks example_env example_status (rev example_blocks) []) \<rparr>),
         requests = [GetBalance, GetAddresses, GetStatus,
                     GetTransactions (blockCount example_status) 1 [''TRTLmain'', ''TRTLsecond'']] \<rparr>"
    by (rule refresh_values_fetched [where bal = "\<lparr> availableBalance = 125000, lockedAmount = 0 \<rparr>" and blocks = example_blocks])
      (simp_all add: example_fetch format_amount_examples example_loop)
  then show ?thesis
    by (simp add: example_loop example_status_line example_fetch example_view_def)
qed

lemma failing_fetch:
  "getBalance (failing_wallet GetBalance) = Inl (RequestFailed ''getBalance'')"
  "getBalance (failing_wallet GetAddresses) = getBalance example_wallet"
  "getBalance (failing_wallet GetStatus) = getBalance example_wallet"
  "getBalance (failing_wallet (GetTransactions bc first addrs)) = getBalance example_wallet"
  "getAddresses (failing_wallet GetAddresses) = Inl (RequestFailed ''getAddresses'')"
  "getAddresses (failing_wallet GetStatus) = getAddresses example_wallet"
  "getAddresses (failing_wallet (GetTransactions bc first addrs)) = getAddresses example_wallet"
  "getStatus (failing_wallet GetStatus) = Inl (RequestFailed ''getStatus'')"
  "getStatus (failing_wallet (GetTransactions bc first addrs)) = getStatus example_wallet"
  "getTransactions (failing_wallet (GetTransactions bc first addrs)) bc' first' addrs' =
     Inl (RequestFailed ''getTransactions'')"
  by (simp_all add: failing_wallet_def)

section \<open>The claims\<close>

text \<open>
  C3. For every transaction and every status, the \<open>confirmed\<close> column of the row is
  \<open>unlockTime = 0 \<or> unlockTime \<le> blockCount - 40\<close>. In particular a nonzero
  \<open>unlockTime\<close> equal to \<open>blockCount - 40\<close> is confirmed and one equal to
  \<open>blockCount - 39\<close> is not.
\<close>

theorem confirmed_flag:
  "make_row ev st tx = Inr r \<Longrightarrow>
     confirmed r = (unlockTime tx = 0 \<or> unlockTime tx \<le> blockCount st - 40) \<and>
     (unlockTime tx \<noteq> 0 \<and> unlockTime tx = blockCount st - 40 \<longrightarrow> confirmed r) \<and>
     (unlockTime tx \<noteq> 0 \<and> unlockTime tx = blockCount st - 39 \<longrightarrow> \<not> confirmed r)"
  by (auto dest!: make_row_Inr)

theorem confirmed_flag_witness:
  "(unlockTime tx_no_transfers \<noteq> 0 \<and>
    unlockTime tx_no_transfers = blockCount example_status - 40 \<and>
    (case make_row example_env example_status tx_no_transfers of
       Inr r \<Rightarrow> confirmed r | Inl e \<Rightarrow> False)) \<and>
   (unlockTime tx_in \<noteq> 0 \<and> unlockTime tx_in = blockCount example_status - 39 \<and>
    (case make_row example_env example_status tx_in of
       Inr r \<Rightarrow> \<not> confirmed r | Inl e \<Rightarrow> False))"
proof -
  have u: "unlockTime tx_no_transfers = 60" "unlockTime tx_in = 61"
    "blockCount example_status = 100"
    by (simp_all add: tx_no_transfers_def tx_in_def example_status_def)
  show ?thesis
    using confirmed_flag [OF example_rows(3)] confirmed_flag [OF example_rows(2)]
    by (simp add: example_rows u)
qed

text \<open>
  C8. For every transaction the \<open>direction\<close> column of the row is \<open>In\<close> if the amount is
  positive and \<open>Out\<close> otherwise: every negative amount, and also amount \<open>0\<close>, gives \<open>Out\<close>.
\<close>

theorem direction_in_out:
  "make_row ev st tx = Inr r \<Longrightarrow>
     direction r = (if 0 < amount tx then ''In'' else ''Out'') \<and>
     (amount tx < 0 \<longrightarrow> direction r = ''Out'') \<and>
     (amount tx = 0 \<longrightarrow> direction r = ''Out'')"
  by (auto dest!: make_row_Inr)

theorem direction_in_out_witness:
  "(0 < amount tx_in \<and>
    (case make_row example_env example_status tx_in of
       Inr r \<Rightarrow> direction r = ''In'' | Inl e \<Rightarrow> False)) \<and>
   (amount example_transaction < 0 \<and>
    (case make_row example_env example_status example_transaction of
       Inr r \<Rightarrow> direction r = ''Out'' | Inl e \<Rightarrow> False)) \<and>
   (amount tx_no_transfers = 0 \<and>
    (case make_row example_env example_status tx_no_transfers of
       Inr r \<Rightarrow> direction r = ''Out'' | Inl e \<Rightarrow> False))"
proof -
  have a: "amount tx_in = 125000" "amount example_transaction = - 150"
    "amount tx_no_transfers = 0"
    by (simp_all add: tx_no_transfers_def tx_in_def example_transaction_def)
  show ?thesis
    using direction_in_out [OF example_rows(2)] direction_in_out [OF example_rows(1)]
      direction_in_out [OF example_rows(3)]
    by (simp add: example_rows a)
qed

text \<open>
  C4, as the claim states it, fails on its own example: for \<open>amount = -150\<close> and
  \<open>fee = 10\<close> the code computes \<open>(amount + fee) * -1 = 140\<close>, not \<open>160\<close>, and among the
  transfers \<open>[{A, 100}, {B, 160}]\<close> none has that amount, so no counterparty is found.
\<close>

theorem target_amount_counterexample:
  "amount example_transaction = - 150 \<and> fee example_transaction = 10 \<and>
   desired_transfer_amount example_transaction \<noteq> 160 \<and>
   find_address None (desired_transfer_amount example_transaction)
     (transfers example_transaction) \<noteq> Some ''B''"
  by (simp add: desired_transfer_amount_def example_transaction_def example_transfers_def)

text \<open>
  C4, amended. For every transaction the amount looked for among the transfers is
  \<open>-(amount + fee)\<close> when \<open>amount < 0\<close> and \<open>amount\<close> otherwise. For \<open>amount = -150\<close>
  and \<open>fee = 10\<close> it is \<open>140\<close>; against the transfers \<open>[{A, 100}, {B, 160}]\<close> no
  counterparty is found, and against \<open>[{A, 100}, {B, 140}]\<close> the counterparty is \<open>B\<close>.
\<close>

theorem target_amount:
  "desired_transfer_amount tx = (if amount tx < 0 then - (amount tx + fee tx) else amount tx) \<and>
   desired_transfer_amount example_transaction = 140 \<and>
   find_address None (desired_transfer_amount example_transaction)
     (transfers example_transaction) = None \<and>
   find_address None (desired_transfer_amount example_transaction)
     [\<lparr> transfer_address = ''A'', transfer_amount = 100 \<rparr>,
      \<lparr> transfer_address = ''B'', transfer_amount = 140 \<rparr>] = Some ''B''"
  by (simp add: desired_transfer_amount_def example_transaction_def example_transfers_def)



text \<open>
  C1, as the claim states it, fails: the balance labels are set right after
  \<^verbatim>\<open>getBalance\<close> returns, so when \<^verbatim>\<open>getAddresses\<close> then fails the view has changed.
\<close>

theorem rpc_failure_view_counterexample:
  "getAddresses (wallet (example_env \<lparr> wallet := failing_wallet GetAddresses \<rparr>)) =
     Inl (RequestFailed ''getAddresses'') \<and>
   raised (refresh_values (example_env \<lparr> wallet := failing_wallet GetAddresses \<rparr>) example_view) =
     Some (RequestFailed ''getAddresses'') \<and>
   AvailableBalanceAmountLabel example_view = ''9.99'' \<and>
   AvailableBalanceAmountLabel
     (shown (refresh_values (example_env \<lparr> wallet := failing_wallet GetAddresses \<rparr>)
        example_view)) = ''1,250.00'' \<and>
   shown (refresh_values (example_env \<lparr> wallet := failing_wallet GetAddresses \<rparr>) example_view)
     \<noteq> example_view"
proof -
  have "refresh_values (example_env \<lparr> wallet := failing_wallet GetAddresses \<rparr>) example_view =
     \<lparr> raised = Some (RequestFailed ''getAddresses''),
       shown = example_view \<lparr> AvailableBalanceAmountLabel := ''1,250.00'',
                              LockedBalanceAmountLabel := ''0.00'' \<rparr>,
       requests = [GetBalance, GetAddresses] \<rparr>"
    by (simp add: refresh_values_def failing_fetch example_fetch format_amount_examples)
  then show ?thesis
    by (simp add: failing_fetch) (simp add: example_view_def)
qed

text \<open>
  C1, amended. If \<^verbatim>\<open>getBalance\<close> fails, the view is left exactly as it was. If
  \<^verbatim>\<open>getAddresses\<close> fails, the two balance labels already show the balances just fetched;
  if \<^verbatim>\<open>getStatus\<close> or \<^verbatim>\<open>getTransactions\<close> fails, the balance labels and the address text
  already show the values just fetched. In all four cases nothing else has changed: the
  transaction list and the status line are as they were before the cycle.
\<close>

theorem rpc_failure_view:
  "(getBalance (wallet ev) = Inl e \<longrightarrow>
      refresh_values ev v = \<lparr> raised = Some e, shown = v, requests = [GetBalance] \<rparr>) \<and>
   (getBalance (wallet ev) = Inr bal \<and> format_amount (availableBalance bal) = Inr a \<and>
    format_amount (lockedAmount bal) = Inr l \<and> getAddresses (wallet ev) = Inl e \<longrightarrow>
      refresh_values ev v =
        \<lparr> raised = Some e,
          shown = v \<lparr> AvailableBalanceAmountLabel := a, LockedBalanceAmountLabel := l \<rparr>,
          requests = [GetBalance, GetAddresses] \<rparr>) \<and>
   (getBalance (wallet ev) = Inr bal \<and> format_amount (availableBalance bal) = Inr a \<and>
    format_amount (lockedAmount bal) = Inr l \<and> getAddresses (wallet ev) = Inr (a0 # as) \<and>
    getStatus (wallet ev) = Inl e \<longrightarrow>
      refresh_values ev v =
        \<lparr> raised = Some e,
          shown = v \<lparr> AvailableBalanceAmountLabel := a, LockedBalanceAmountLabel := l,
                      AddressTextBox := a0 \<rparr>,
          requests = [GetBalance, GetAddresses, GetStatus] \<rparr>) \<and>
   (getBalance (wallet ev) = Inr bal \<and> format_amount (availableBalance bal) = Inr a \<and>
    format_amount (lockedAmount bal) = Inr l \<and> getAddresses (wallet ev) = Inr (a0 # as) \<and>
    getStatus (wallet ev) = Inr st \<and>
    getTransactions (wallet ev) (blockCount st) 1 (a0 # as) = Inl e \<longrightarrow>
      refresh_values ev v =
        \<lparr> raised = Some e,
          shown = v \<lparr> AvailableBalanceAmountLabel := a, LockedBalanceAmountLabel := l,
                      AddressTextBox := a0 \<rparr>,
          requests = [GetBalance, GetAddresses, GetStatus,
                      GetTransactions (blockCount st) 1 (a0 # as)] \<rparr>) \<and>
   (raised (refresh_values ev v) \<noteq> None \<and>
    (\<exists>e. last (requests (refresh_values ev v)) = GetBalance \<and> getBalance (wallet ev) = Inl e \<or>
         last (requests (refresh_values ev v)) = GetAddresses \<and> getAddresses (wallet ev) = Inl e \<or>
         last (requests (refresh_values ev v)) = GetStatus \<and> getStatus (wallet ev) = Inl e \<or>
         (\<exists>bc addrs. last (requests (refresh_values ev v)) = GetTransactions bc 1 addrs \<and>
            getTransactions (wallet ev) bc 1 addrs = Inl e)) \<longrightarrow>
      transactions_list_store (shown (refresh_values ev v)) = transactions_list_store v \<and>
      MainStatusLabel (shown (refresh_values ev v)) = MainStatusLabel v)"
proof (intro conjI impI)
  assume "raised (refresh_values ev v) \<noteq> None \<and>
    (\<exists>e. last (requests (refresh_values ev v)) = GetBalance \<and> getBalance (wallet ev) = Inl e \<or>
         last (requests (refresh_values ev v)) = GetAddresses \<and> getAddresses (wallet ev) = Inl e \<or>
         last (requests (refresh_values ev v)) = GetStatus \<and> getStatus (wallet ev) = Inl e \<or>
         (\<exists>bc addrs. last (requests (refresh_values ev v)) = GetTransactions bc 1 addrs \<and>
            getTransactions (wallet ev) bc 1 addrs = Inl e))"
  then show "transactions_list_store (shown (refresh_values ev v)) = transactions_list_store v"
    "MainStatusLabel (shown (refresh_values ev v)) = MainStatusLabel v"
    unfolding refresh_values_def Let_def
    by (auto split: sum.splits list.splits prod.splits option.splits)
qed (simp_all add: refresh_values_def)

theorem rpc_failure_view_witness:
  "refresh_values (example_env \<lparr> wallet := failing_wallet GetBalance \<rparr>) example_view =
     \<lparr> raised = Some (RequestFailed ''getBalance''), shown = example_view,
       requests = [GetBalance] \<rparr> \<and>
   refresh_values (example_env \<lparr> wallet := failing_wallet GetAddresses \<rparr>) example_view =
     \<lparr> raised = Some (RequestFailed ''getAddresses''),
       shown = example_view \<lparr> AvailableBalanceAmountLabel := ''1,250.00'',
                              LockedBalanceAmountLabel := ''0.00'' \<rparr>,
       requests = [GetBalance, GetAddresses] \<rparr> \<and>
   refresh_values (example_env \<lparr> wallet := failing_wallet GetStatus \<rparr>) example_view =
     \<lparr> raised = Some (RequestFailed ''getStatus''),
       shown = example_view \<lparr> AvailableBalanceAmountLabel := ''1,250.00'',
                              LockedBalanceAmountLabel := ''0.00'',
                              AddressTextBox := ''TRTLmain'' \<rparr>,
       requests = [GetBalance, GetAddresses, GetStatus] \<rparr> \<and>
   refresh_values (example_env \<lparr> wallet := failing_wallet (GetTransactions 100 1 []) \<rparr>)
       example_view =
     \<lparr> raised = Some (RequestFailed ''getTransactions''),
       shown = example_view \<lparr> AvailableBalanceAmountLabel := ''1,250.00'',
                              LockedBalanceAmountLabel := ''0.00'',
                              AddressTextBox := ''TRTLmain'' \<rparr>,
       requests = [GetBalance, GetAddresses, GetStatus,
                   GetTransactions 100 1 [''TRTLmain'', ''TRTLsecond'']] \<rparr> \<and>
   transactions_list_store
     (shown (refresh_values (example_env \<lparr> wallet := failing_wallet GetStatus \<rparr>)
        example_view)) = transactions_list_store example_view \<and>
   MainStatusLabel
     (shown (refresh_values (example_env \<lparr> wallet := failing_wallet GetStatus \<rparr>)
        example_view)) = MainStatusLabel example_view"
  using
    rpc_failure_view [of "example_env \<lparr> wallet := failing_wallet GetBalance \<rparr>"
      "RequestFailed ''getBalance''" example_view]
    rpc_failure_view [of "example_env \<lparr> wallet := failing_wallet GetAddresses \<rparr>"
      "RequestFailed ''getAddresses''" example_view
      "\<lparr> availableBalance = 125000, lockedAmount = 0 \<rparr>" "''1,250.00''" "''0.00''"]
    rpc_failure_view [of "example_env \<lparr> wallet := failing_wallet GetStatus \<rparr>"
      "RequestFailed ''getStatus''" example_view
      "\<lparr> availableBalance = 125000, lockedAmount = 0 \<rparr>" "''1,250.00''" "''0.00''"
      "''TRTLmain''" "[''TRTLsecond'']"]
    rpc_failure_view [of "example_env \<lparr> wallet := failing_wallet (GetTransactions 100 1 []) \<rparr>"
      "RequestFailed ''getTransactions''" example_view
      "\<lparr> availableBalance = 125000, lockedAmount = 0 \<rparr>" "''1,250.00''" "''0.00''"
      "''TRTLmain''" "[''TRTLsecond'']" example_status]
  by (simp add: failing_fetch example_fetch format_amount_examples)

text \<open>
  C10. The cycle presupposes at least one address. If \<^verbatim>\<open>getAddresses\<close> is called and
  returns the empty list, the cycle ends with \<^verbatim>\<open>IndexError\<close> at \<^verbatim>\<open>addresses[0]\<close>; the
  balance labels have been updated by then, nothing else has, and neither \<^verbatim>\<open>getStatus\<close>
  nor \<^verbatim>\<open>getTransactions\<close> is called.
\<close>

theorem empty_address_list:
  assumes "GetAddresses \<in> set (requests (refresh_values ev v))"
    and "getAddresses (wallet ev) = Inr []"
  shows "\<exists>bal a l.
     getBalance (wallet ev) = Inr bal \<and> format_amount (availableBalance bal) = Inr a \<and>
     format_amount (lockedAmount bal) = Inr l \<and>
     refresh_values ev v =
       \<lparr> raised = Some IndexError,
         shown = v \<lparr> AvailableBalanceAmountLabel := a, LockedBalanceAmountLabel := l \<rparr>,
         requests = [GetBalance, GetAddresses] \<rparr> \<and>
     GetStatus \<notin> set (requests (refresh_values ev v)) \<and>
     (\<forall>bc first addrs. GetTransactions bc first addrs \<notin> set (requests (refresh_values ev v)))"
  using assms unfolding refresh_values_def Let_def
  by (auto split: sum.splits list.splits)

theorem empty_address_list_witness:
  "GetAddresses \<in> set (requests (refresh_values
     (example_env \<lparr> wallet := example_wallet \<lparr> getAddresses := Inr [] \<rparr> \<rparr>) example_view)) \<and>
   getAddresses (wallet (example_env \<lparr> wallet := example_wallet \<lparr> getAddresses := Inr [] \<rparr> \<rparr>)) =
     Inr [] \<and>
   refresh_values (example_env \<lparr> wallet := example_wallet \<lparr> getAddresses := Inr [] \<rparr> \<rparr>)
       example_view =
     \<lparr> raised = Some IndexError,
       shown = example_view \<lparr> AvailableBalanceAmountLabel := ''1,250.00'',
                              LockedBalanceAmountLabel := ''0.00'' \<rparr>,
       requests = [GetBalance, GetAddresses] \<rparr>"
proof -
  let ?ev = "example_env \<lparr> wallet := example_wallet \<lparr> getAddresses := Inr [] \<rparr> \<rparr>"
  have r: "refresh_values ?ev example_view =
     \<lparr> raised = Some IndexError,
       shown = example_view \<lparr> AvailableBalanceAmountLabel := ''1,250.00'',
                              LockedBalanceAmountLabel := ''0.00'' \<rparr>,
       requests = [GetBalance, GetAddresses] \<rparr>"
    by (simp add: refresh_values_def example_fetch format_amount_examples)
  have a: "GetAddresses \<in> set (requests (refresh_values ?ev example_view))"
    by (simp add: r)
  have b: "getAddresses (wallet ?ev) = Inr []" by simp
  from empty_address_list [OF a b] a b show ?thesis
    by (simp add: r)
qed

text \<open>
  C9, as the claim states it, fails: a cycle whose \<^verbatim>\<open>getBalance\<close> request fails issues that
  one request and no other.
\<close>

theorem requests_in_order_counterexample:
  "requests (refresh_values (example_env \<lparr> wallet := failing_wallet GetBalance \<rparr>) example_view) =
     [GetBalance] \<and>
   length (requests (refresh_values (example_env \<lparr> wallet := failing_wallet GetBalance \<rparr>)
     example_view)) \<noteq> 4"
  by (simp add: refresh_values_def failing_fetch)

text \<open>
  C9, amended. In every refresh cycle the requests issued are a non-empty initial segment
  of \<^verbatim>\<open>getBalance\<close>, \<^verbatim>\<open>getAddresses\<close>, \<^verbatim>\<open>getStatus\<close>, \<^verbatim>\<open>getTransactions\<close>, in that order, and
  the segment ends at the first request that fails: it is \<^verbatim>\<open>getBalance\<close> alone when that
  request fails or a balance cannot be formatted, \<^verbatim>\<open>getBalance\<close> and \<^verbatim>\<open>getAddresses\<close> when
  \<^verbatim>\<open>getAddresses\<close> fails or returns the empty list, the first three when \<^verbatim>\<open>getStatus\<close>
  fails. Whenever the first three requests return (the balances can be formatted and the
  address list is not empty), exactly the four requests are issued and \<^verbatim>\<open>getTransactions\<close>
  carries the \<^verbatim>\<open>blockCount\<close> just returned by \<^verbatim>\<open>getStatus\<close>, \<^verbatim>\<open>firstBlockIndex = 1\<close> and the
  full address list just returned by \<^verbatim>\<open>getAddresses\<close>; this is so in every cycle that
  completes.
\<close>

theorem requests_in_order:
  "(getBalance (wallet ev) = Inl e \<longrightarrow> requests (refresh_values ev v) = [GetBalance]) \<and>
   (getBalance (wallet ev) = Inr bal \<and> format_amount (availableBalance bal) = Inl e \<longrightarrow>
      requests (refresh_values ev v) = [GetBalance]) \<and>
   (getBalance (wallet ev) = Inr bal \<and> format_amount (availableBalance bal) = Inr a \<and>
    format_amount (lockedAmount bal) = Inl e \<longrightarrow>
      requests (refresh_values ev v) = [GetBalance]) \<and>
   (getBalance (wallet ev) = Inr bal \<and> format_amount (availableBalance bal) = Inr a \<and>
    format_amount (lockedAmount bal) = Inr l \<and> getAddresses (wallet ev) = Inl e \<longrightarrow>
      requests (refresh_values ev v) = [GetBalance, GetAddresses]) \<and>
   (getBalance (wallet ev) = Inr bal \<and> format_amount (availableBalance bal) = Inr a \<and>
    format_amount (lockedAmount bal) = Inr l \<and> getAddresses (wallet ev) = Inr [] \<longrightarrow>
      requests (refresh_values ev v) = [GetBalance, GetAddresses]) \<and>
   (getBalance (wallet ev) = Inr bal \<and> format_amount (availableBalance bal) = Inr a \<and>
    format_amount (lockedAmount bal) = Inr l \<and> getAddresses (wallet ev) = Inr (a0 # rest) \<and>
    getStatus (wallet ev) = Inl e \<longrightarrow>
      requests (refresh_values ev v) = [GetBalance, GetAddresses, GetStatus]) \<and>
   (getBalance (wallet ev) = Inr bal \<and> format_amount (availableBalance bal) = Inr a \<and>
    format_amount (lockedAmount bal) = Inr l \<and> getAddresses (wallet ev) = Inr (a0 # rest) \<and>
    getStatus (wallet ev) = Inr st \<longrightarrow>
      requests (refresh_values ev v) =
        [GetBalance, GetAddresses, GetStatus, GetTransactions (blockCount st) 1 (a0 # rest)]) \<and>
   (raised (refresh_values ev v) = None \<longrightarrow>
      (\<exists>st addrs. getStatus (wallet ev) = Inr st \<and> getAddresses (wallet ev) = Inr addrs \<and>
         requests (refresh_values ev v) =
           [GetBalance, GetAddresses, GetStatus, GetTransactions (blockCount st) 1 addrs])) \<and>
   (\<exists>bc addrs. prefix (requests (refresh_values ev v))
       [GetBalance, GetAddresses, GetStatus, GetTransactions bc 1 addrs]) \<and>
   requests (refresh_values ev v) \<noteq> []"
proof (intro conjI impI)
  show "\<exists>bc addrs. prefix (requests (refresh_values ev v))
       [GetBalance, GetAddresses, GetStatus, GetTransactions bc 1 addrs]"
    unfolding refresh_values_def Let_def
    by (auto split: sum.splits list.splits prod.splits option.splits)
  show "requests (refresh_values ev v) \<noteq> []"
    unfolding refresh_values_def Let_def
    by (auto split: sum.splits list.splits prod.splits option.splits)
next
  assume "getBalance (wallet ev) = Inr bal \<and> format_amount (availableBalance bal) = Inr a \<and>
    format_amount (lockedAmount bal) = Inr l \<and> getAddresses (wallet ev) = Inr (a0 # rest) \<and>
    getStatus (wallet ev) = Inr st"
  then show "requests (refresh_values ev v) =
        [GetBalance, GetAddresses, GetStatus, GetTransactions (blockCount st) 1 (a0 # rest)]"
    unfolding refresh_values_def Let_def
    by (auto split: sum.splits prod.splits option.splits)
next
  assume "raised (refresh_values ev v) = None"
  from refresh_values_completed [OF this]
  show "\<exists>st addrs. getStatus (wallet ev) = Inr st \<and> getAddresses (wallet ev) = Inr addrs \<and>
         requests (refresh_values ev v) =
           [GetBalance, GetAddresses, GetStatus, GetTransactions (blockCount st) 1 addrs]"
    by auto
qed (simp_all add: refresh_values_def)

theorem requests_in_order_witness:
  "requests (refresh_values (example_env \<lparr> wallet := failing_wallet GetBalance \<rparr>) example_view) =
     [GetBalance] \<and>
   format_amount (2 ^ 1024) = Inl OverflowError \<and>
   requests (refresh_values
     (example_env \<lparr> wallet := example_wallet
        \<lparr> getBalance := Inr \<lparr> availableBalance = 2 ^ 1024, lockedAmount = 0 \<rparr> \<rparr> \<rparr>)
     example_view) = [GetBalance] \<and>
   requests (refresh_values
     (example_env \<lparr> wallet := example_wallet
        \<lparr> getBalance := Inr \<lparr> availableBalance = 0, lockedAmount = 2 ^ 1024 \<rparr> \<rparr> \<rparr>)
     example_view) = [GetBalance] \<and>
   requests (refresh_values (example_env \<lparr> wallet := failing_wallet GetAddresses \<rparr>) example_view) =
     [GetBalance, GetAddresses] \<and>
   requests (refresh_values
     (example_env \<lparr> wallet := example_wallet \<lparr> getAddresses := Inr [] \<rparr> \<rparr>) example_view) =
     [GetBalance, GetAddresses] \<and>
   requests (refresh_values (example_env \<lparr> wallet := failing_wallet GetStatus \<rparr>) example_view) =
     [GetBalance, GetAddresses, GetStatus] \<and>
   requests (refresh_values (example_env \<lparr> wallet := failing_wallet (GetTransactions 100 1 []) \<rparr>)
     example_view) =
     [GetBalance, GetAddresses, GetStatus,
      GetTransactions 100 1 [''TRTLmain'', ''TRTLsecond'']] \<and>
   raised (refresh_values example_env example_view) = None \<and>
   getStatus (wallet example_env) = Inr example_status \<and>
   blockCount example_status = 100 \<and>
   getAddresses (wallet example_env) = Inr [''TRTLmain'', ''TRTLsecond''] \<and>
   requests (refresh_values example_env example_view) =
     [GetBalance, GetAddresses, GetStatus,
      GetTransactions 100 1 [''TRTLmain'', ''TRTLsecond'']]"
proof -
  let ?bal = "\<lparr> availableBalance = 125000, lockedAmount = 0 \<rparr>"
  let ?big1 = "\<lparr> availableBalance = 2 ^ 1024, lockedAmount = 0 \<rparr>"
  let ?big2 = "\<lparr> availableBalance = 0, lockedAmount = 2 ^ 1024 \<rparr>"
  have o: "format_amount (availableBalance ?big1) = Inl OverflowError"
    "format_amount (lockedAmount ?big2) = Inl OverflowError"
    "format_amount (availableBalance ?big2) = Inr ''0.00''"
    unfolding balances.select_convs
    by (rule format_amount_overflow format_amount_examples)+
  have c1: "requests (refresh_values (example_env \<lparr> wallet := failing_wallet GetBalance \<rparr>)
      example_view) = [GetBalance]"
    by (rule requests_in_order [where e = "RequestFailed ''getBalance''", THEN conjunct1, THEN mp])
      (simp add: failing_fetch)
  have c2: "requests (refresh_values
      (example_env \<lparr> wallet := example_wallet \<lparr> getBalance := Inr ?big1 \<rparr> \<rparr>) example_view) =
      [GetBalance]"
    by (rule requests_in_order [where bal = ?big1 and e = OverflowError,
          THEN conjunct2, THEN conjunct1, THEN mp])
      (simp only: o, simp)
  have c3: "requests (refresh_values
      (example_env \<lparr> wallet := example_wallet \<lparr> getBalance := Inr ?big2 \<rparr> \<rparr>) example_view) =
      [GetBalance]"
    by (rule requests_in_order [where bal = ?big2 and e = OverflowError and a = "''0.00''",
          THEN conjunct2, THEN conjunct2, THEN conjunct1, THEN mp])
      (simp only: o, simp)
  have c4: "requests (refresh_values (example_env \<lparr> wallet := failing_wallet GetAddresses \<rparr>)
      example_view) = [GetBalance, GetAddresses]"
    by (rule requests_in_order [where bal = ?bal and a = "''1,250.00''" and l = "''0.00''"
          and e = "RequestFailed ''getAddresses''",
          THEN conjunct2, THEN conjunct2, THEN conjunct2, THEN conjunct1, THEN mp])
      (simp add: failing_fetch example_fetch format_amount_examples)
  have c5: "requests (refresh_values
      (example_env \<lparr> wallet := example_wallet \<lparr> getAddresses := Inr [] \<rparr> \<rparr>) example_view) =
      [GetBalance, GetAddresses]"
    by (rule requests_in_order [where bal = ?bal and a = "''1,250.00''" and l = "''0.00''",
          THEN conjunct2, THEN conjunct2, THEN conjunct2, THEN conjunct2, THEN conjunct1,
          THEN mp])
      (simp add: example_fetch format_amount_examples)
  have c6: "requests (refresh_values (example_env \<lparr> wallet := failing_wallet GetStatus \<rparr>)
      example_view) = [GetBalance, GetAddresses, GetStatus]"
    by (rule requests_in_order [where bal = ?bal and a = "''1,250.00''" and l = "''0.00''"
          and e = "RequestFailed ''getStatus''" and ?a0.0 = "''TRTLmain''"
          and rest = "[''TRTLsecond'']",
          THEN conjunct2, THEN conjunct2, THEN conjunct2, THEN conjunct2, THEN conjunct2,
          THEN conjunct1, THEN mp])
      (simp add: failing_fetch example_fetch format_amount_examples)
  have c7: "requests (refresh_values
      (example_env \<lparr> wallet := failing_wallet (GetTransactions 100 1 []) \<rparr>) example_view) =
      [GetBalance, GetAddresses, GetStatus,
       GetTransactions (blockCount example_status) 1 [''TRTLmain'', ''TRTLsecond'']]"
    by (rule requests_in_order [where bal = ?bal and a = "''1,250.00''" and l = "''0.00''"
          and ?a0.0 = "''TRTLmain''" and rest = "[''TRTLsecond'']" and st = example_status,
          THEN conjunct2, THEN conjunct2, THEN conjunct2, THEN conjunct2, THEN conjunct2,
          THEN conjunct2, THEN conjunct1, THEN mp])
      (simp add: failing_fetch example_fetch format_amount_examples)
  have c8: "requests (refresh_values example_env example_view) =
      [GetBalance, GetAddresses, GetStatus,
       GetTransactions (blockCount example_status) 1 [''TRTLmain'', ''TRTLsecond'']]"
    by (rule requests_in_order [where bal = ?bal and a = "''1,250.00''" and l = "''0.00''"
          and ?a0.0 = "''TRTLmain''" and rest = "[''TRTLsecond'']" and st = example_status,
          THEN conjunct2, THEN conjunct2, THEN conjunct2, THEN conjunct2, THEN conjunct2,
          THEN conjunct2, THEN conjunct1, THEN mp])
      (simp add: example_fetch format_amount_examples)
  have g: "raised (refresh_values example_env example_view) = None"
    "getStatus (wallet example_env) = Inr example_status"
    "blockCount example_status = 100"
    "getAddresses (wallet example_env) = Inr [''TRTLmain'', ''TRTLsecond'']"
    by (simp_all add: example_cycle example_fetch)
  show ?thesis
    unfolding c1 c2 c3 c4 c5 c6 c7 c8 g format_amount_overflow by simp
qed

text \<open>
  C2, as the claim states it, fails: a transaction is appended whether or not it has
  transfers (the test of line 89 is on the block's transaction list, not on the transfer
  list). The sample wallet returns four transactions, three of them with transfers, and
  the cycle produces four rows; the first is the row of the transaction without transfers.
\<close>

theorem record_count_counterexample:
  "getTransactions (wallet example_env) 100 1 [''TRTLmain'', ''TRTLsecond''] = Inr example_blocks \<and>
   raised (refresh_values example_env example_view) = None \<and>
   length (transactions_list_store (shown (refresh_values example_env example_view))) = 4 \<and>
   length (filter (\<lambda>tx. transfers tx \<noteq> []) (concat (map transactions example_blocks))) = 3 \<and>
   transfers tx_no_transfers = [] \<and>
   make_row example_env example_status tx_no_transfers =
     Inr (hd (transactions_list_store (shown (refresh_values example_env example_view))))"
  by (simp add: example_cycle example_fetch example_rows)
    (simp add: example_blocks_def example_transaction_def example_transfers_def tx_in_def
      tx_no_transfers_def tx_out_tie_def)

text \<open>
  C2, amended. For every fetched block sequence, the number of rows produced by a cycle
  that completes equals the number of transactions across all fetched blocks, whatever
  their transfer lists; a transaction with an empty transfer list produces a row, whose
  counterparty address is absent.
\<close>

theorem record_count:
  assumes "getAddresses (wallet ev) = Inr addrs" "getStatus (wallet ev) = Inr st"
    "getTransactions (wallet ev) (blockCount st) 1 addrs = Inr blocks"
    "raised (refresh_values ev v) = None"
  shows "length (transactions_list_store (shown (refresh_values ev v))) =
       length (concat (map transactions blocks)) \<and>
     (\<forall>tx \<in> set (concat (map transactions blocks)).
        \<exists>r \<in> set (transactions_list_store (shown (refresh_values ev v))).
          make_row ev st tx = Inr r \<and> (transfers tx = [] \<longrightarrow> counterpartyAddress r = None))"
proof -
  let ?store = "transactions_list_store (shown (refresh_values ev v))"
  have m: "map Inr ?store = concat (map (\<lambda>b. map (make_row ev st) (transactions b)) (rev blocks))"
    using assms by (rule completed_rows)
  have c: "concat (map (\<lambda>b. map (make_row ev st) (transactions b)) bs) =
      map (make_row ev st) (concat (map transactions bs))" for bs
    by (induction bs) simp_all
  have "length (map Inr ?store :: (exn + row) list) =
      length (concat (map transactions (rev blocks)))"
    unfolding m c by simp
  also have "\<dots> = length (concat (map transactions blocks))"
    by (simp add: length_concat rev_map [symmetric])
  finally have len: "length ?store = length (concat (map transactions blocks))" by simp
  have "\<exists>r \<in> set ?store. make_row ev st tx = Inr r \<and>
      (transfers tx = [] \<longrightarrow> counterpartyAddress r = None)"
    if tx: "tx \<in> set (concat (map transactions blocks))" for tx
  proof -
    from tx have "tx \<in> set (concat (map transactions (rev blocks)))" by auto
    then have "make_row ev st tx \<in> set (map Inr ?store :: (exn + row) list)"
      unfolding m c by simp
    then obtain r where r: "r \<in> set ?store" "make_row ev st tx = Inr r" by auto
    from make_row_Inr [OF r(2)] have "transfers tx = [] \<longrightarrow> counterpartyAddress r = None"
      by auto
    with r show ?thesis by blast
  qed
  with len show ?thesis by blast
qed

theorem record_count_witness:
  "getAddresses (wallet example_env) = Inr [''TRTLmain'', ''TRTLsecond''] \<and>
   getStatus (wallet example_env) = Inr example_status \<and>
   getTransactions (wallet example_env) (blockCount example_status) 1
     [''TRTLmain'', ''TRTLsecond''] = Inr example_blocks \<and>
   raised (refresh_values example_env example_view) = None \<and>
   length (transactions_list_store (shown (refresh_values example_env example_view))) =
     length (concat (map transactions example_blocks)) \<and>
   length (concat (map transactions example_blocks)) = 4 \<and>
   tx_no_transfers \<in> set (concat (map transactions example_blocks)) \<and>
   transfers tx_no_transfers = [] \<and>
   make_row example_env example_status tx_no_transfers =
     Inr (hd (transactions_list_store (shown (refresh_values example_env example_view)))) \<and>
   counterpartyAddress
     (hd (transactions_list_store (shown (refresh_values example_env example_view)))) = None"
proof -
  have h: "getAddresses (wallet example_env) = Inr [''TRTLmain'', ''TRTLsecond'']"
    "getStatus (wallet example_env) = Inr example_status"
    "getTransactions (wallet example_env) (blockCount example_status) 1
       [''TRTLmain'', ''TRTLsecond''] = Inr example_blocks"
    "raised (refresh_values example_env example_view) = None"
    by (simp_all add: example_fetch example_cycle)
  have n: "length (concat (map transactions example_blocks)) = 4"
    "tx_no_transfers \<in> set (concat (map transactions example_blocks))"
    by (simp_all add: example_blocks_def)
  have t: "transfers tx_no_transfers = []" by (simp add: tx_no_transfers_def)
  have r: "make_row example_env example_status tx_no_transfers =
     Inr (hd (transactions_list_store (shown (refresh_values example_env example_view))))"
    "counterpartyAddress
       (hd (transactions_list_store (shown (refresh_values example_env example_view)))) = None"
    by (simp_all add: example_cycle example_rows)
  from record_count [OF h] h n t r show ?thesis by simp
qed

text \<open>
  C6. For every fetched block sequence, the rows of a cycle are those of the blocks in
  reverse of the fetched order, and within a block in the order of its transactions:
  blocks \<open>[B1, B2, B3]\<close> give the rows of \<open>B3\<close>, then those of \<open>B2\<close>, then those of \<open>B1\<close>.
  A cycle that ends with an exception while appending rows leaves an initial segment of
  that same sequence.
\<close>

theorem record_order:
  "(getAddresses (wallet ev) = Inr addrs \<and> getStatus (wallet ev) = Inr st \<and>
    getTransactions (wallet ev) (blockCount st) 1 addrs = Inr blocks \<and>
    raised (refresh_values ev v) = None \<longrightarrow>
      map Inr (transactions_list_store (shown (refresh_values ev v))) =
        concat (map (\<lambda>b. map (make_row ev st) (transactions b)) (rev blocks)) \<and>
      (blocks = [b1, b2, b3] \<longrightarrow>
         map Inr (transactions_list_store (shown (refresh_values ev v))) =
           map (make_row ev st) (transactions b3) @ map (make_row ev st) (transactions b2) @
           map (make_row ev st) (transactions b1))) \<and>
   prefix (map Inr (snd (append_blocks ev st (rev blocks) [])))
     (concat (map (\<lambda>b. map (make_row ev st) (transactions b)) (rev blocks)))"
proof (intro conjI impI)
  assume h: "getAddresses (wallet ev) = Inr addrs \<and> getStatus (wallet ev) = Inr st \<and>
    getTransactions (wallet ev) (blockCount st) 1 addrs = Inr blocks \<and>
    raised (refresh_values ev v) = None"
  then show m: "map Inr (transactions_list_store (shown (refresh_values ev v))) =
        concat (map (\<lambda>b. map (make_row ev st) (transactions b)) (rev blocks))"
    by (intro completed_rows) auto
  assume "blocks = [b1, b2, b3]"
  with m show "map Inr (transactions_list_store (shown (refresh_values ev v))) =
           map (make_row ev st) (transactions b3) @ map (make_row ev st) (transactions b2) @
           map (make_row ev st) (transactions b1)"
    by simp
next
  obtain x store where s: "append_blocks ev st (rev blocks) [] = (x, store)"
    by (cases "append_blocks ev st (rev blocks) []")
  from append_blocks_rows [OF s] s
  show "prefix (map Inr (snd (append_blocks ev st (rev blocks) [])))
     (concat (map (\<lambda>b. map (make_row ev st) (transactions b)) (rev blocks)))"
    by auto
qed

theorem record_order_witness:
  "getAddresses (wallet example_env) = Inr [''TRTLmain'', ''TRTLsecond''] \<and>
   getStatus (wallet example_env) = Inr example_status \<and>
   getTransactions (wallet example_env) (blockCount example_status) 1
     [''TRTLmain'', ''TRTLsecond''] = Inr example_blocks \<and>
   raised (refresh_values example_env example_view) = None \<and>
   example_blocks =
     [\<lparr> transactions = [example_transaction] \<rparr>, \<lparr> transactions = [tx_in] \<rparr>,
      \<lparr> transactions = [tx_no_transfers, tx_out_tie] \<rparr>] \<and>
   map Inr (transactions_list_store (shown (refresh_values example_env example_view))) =
     [make_row example_env example_status tx_no_transfers,
      make_row example_env example_status tx_out_tie,
      make_row example_env example_status tx_in,
      make_row example_env example_status example_transaction]"
proof -
  have h: "getAddresses (wallet example_env) = Inr [''TRTLmain'', ''TRTLsecond''] \<and>
    getStatus (wallet example_env) = Inr example_status \<and>
    getTransactions (wallet example_env) (blockCount example_status) 1
       [''TRTLmain'', ''TRTLsecond''] = Inr example_blocks \<and>
    raised (refresh_values example_env example_view) = None"
    by (simp add: example_fetch example_cycle)
  have b: "example_blocks =
     [\<lparr> transactions = [example_transaction] \<rparr>, \<lparr> transactions = [tx_in] \<rparr>,
      \<lparr> transactions = [tx_no_transfers, tx_out_tie] \<rparr>]"
    by (simp add: example_blocks_def)
  let ?b1 = "\<lparr> transactions = [example_transaction] \<rparr>"
  let ?b2 = "\<lparr> transactions = [tx_in] \<rparr>"
  let ?b3 = "\<lparr> transactions = [tx_no_transfers, tx_out_tie] \<rparr>"
  note t = record_order [of example_env "[''TRTLmain'', ''TRTLsecond'']" example_status
      example_blocks example_view ?b1 ?b2 ?b3, THEN conjunct1, THEN mp, OF h,
      THEN conjunct2, THEN mp, OF b]
  have "map Inr (transactions_list_store (shown (refresh_values example_env example_view))) =
     [make_row example_env example_status tx_no_transfers,
      make_row example_env example_status tx_out_tie,
      make_row example_env example_status tx_in,
      make_row example_env example_status example_transaction]"
    unfolding t by simp
  with h b show ?thesis by simp
qed

text \<open>
  C7, as the claim states it, fails for large amounts: the code divides in double
  precision, and from \<open>100 \<sqdot> 2\<^sup>4\<^sup>6\<close> on the doubles are \<open>1/64\<close> apart, so the quotient
  can be off by more than half a cent. For 7036874417766401 the code renders \<open>.02\<close>
  where the amount divided by 100 ends in \<open>.01\<close>.
\<close>

theorem currency_format_counterexample:
  "format_amount 7036874417766401 = Inr ''70,368,744,177,664.02'' \<and>
   currency_text 7036874417766401 = ''70,368,744,177,664.01'' \<and>
   format_amount 7036874417766401 \<noteq> Inr (currency_text 7036874417766401)"
proof -
  have c: "currency_text 7036874417766401 = ''70,368,744,177,664.01''"
    by (simp add: render_simps)
  show ?thesis
    unfolding c format_amount_boundary by simp
qed

text \<open>
  C7, amended. For every integer amount of absolute value below \<open>100 \<sqdot> 2\<^sup>4\<^sup>6\<close>
  (7036874417766400), the displayed string is the amount divided by 100 with thousands
  separators and exactly two decimal places: 125000 gives \<open>1,250.00\<close>, 0 gives \<open>0.00\<close>,
  a negative amount a leading minus and the same grouping. This holds for the amount
  column of a row and for the two balance labels of a completed cycle alike.
\<close>

theorem currency_format:
  "(\<bar>n\<bar> < 100 * 2 ^ 46 \<longrightarrow> format_amount n = Inr (currency_text n)) \<and>
   format_amount 125000 = Inr ''1,250.00'' \<and>
   format_amount 0 = Inr ''0.00'' \<and>
   format_amount (- 125000) = Inr ''-1,250.00'' \<and>
   (\<bar>amount tx\<bar> < 100 * 2 ^ 46 \<and> make_row ev st tx = Inr r \<longrightarrow>
      displayAmount r = currency_text (amount tx)) \<and>
   (getBalance (wallet ev) = Inr bal \<and> \<bar>availableBalance bal\<bar> < 100 * 2 ^ 46 \<and>
    \<bar>lockedAmount bal\<bar> < 100 * 2 ^ 46 \<and> raised (refresh_values ev v) = None \<longrightarrow>
      AvailableBalanceAmountLabel (shown (refresh_values ev v)) =
        currency_text (availableBalance bal) \<and>
      LockedBalanceAmountLabel (shown (refresh_values ev v)) =
        currency_text (lockedAmount bal))"
proof (intro conjI impI)
  assume "\<bar>n\<bar> < 100 * 2 ^ 46"
  then show "format_amount n = Inr (currency_text n)" by (rule format_amount_exact)
next
  assume h: "\<bar>amount tx\<bar> < 100 * 2 ^ 46 \<and> make_row ev st tx = Inr r"
  then have "format_amount (amount tx) = Inr (currency_text (amount tx))"
    by (intro format_amount_exact) simp
  with h make_row_Inr [of ev st tx r] show "displayAmount r = currency_text (amount tx)"
    by auto
next
  assume h: "getBalance (wallet ev) = Inr bal \<and> \<bar>availableBalance bal\<bar> < 100 * 2 ^ 46 \<and>
    \<bar>lockedAmount bal\<bar> < 100 * 2 ^ 46 \<and> raised (refresh_values ev v) = None"
  then have f: "format_amount (availableBalance bal) = Inr (currency_text (availableBalance bal))"
    "format_amount (lockedAmount bal) = Inr (currency_text (lockedAmount bal))"
    by (simp_all add: format_amount_exact)
  from h have "raised (refresh_values ev v) = None" by simp
  from refresh_values_completed [OF this] h f
  show "AvailableBalanceAmountLabel (shown (refresh_values ev v)) =
        currency_text (availableBalance bal)"
    "LockedBalanceAmountLabel (shown (refresh_values ev v)) =
        currency_text (lockedAmount bal)"
    by auto
qed (simp_all add: format_amount_examples)

theorem currency_format_witness:
  "\<bar>- 125000 :: int\<bar> < 100 * 2 ^ 46 \<and>
   format_amount (- 125000) = Inr (currency_text (- 125000)) \<and>
   currency_text (- 125000) = ''-1,250.00'' \<and>
   \<bar>amount tx_in\<bar> < 100 * 2 ^ 46 \<and>
   (case make_row example_env example_status tx_in of
      Inr r \<Rightarrow> displayAmount r = currency_text (amount tx_in) | Inl e \<Rightarrow> False) \<and>
   getBalance (wallet example_env) = Inr \<lparr> availableBalance = 125000, lockedAmount = 0 \<rparr> \<and>
   raised (refresh_values example_env example_view) = None \<and>
   AvailableBalanceAmountLabel (shown (refresh_values example_env example_view)) =
     currency_text 125000 \<and>
   LockedBalanceAmountLabel (shown (refresh_values example_env example_view)) =
     currency_text 0"
proof -
  have a: "amount tx_in = 125000" by (simp add: tx_in_def)
  have c: "currency_text (- 125000) = ''-1,250.00''" "currency_text 125000 = ''1,250.00''"
    "currency_text 0 = ''0.00''"
    by (simp_all add: render_simps)
  have g: "getBalance (wallet example_env) = Inr \<lparr> availableBalance = 125000, lockedAmount = 0 \<rparr>"
    "raised (refresh_values example_env example_view) = None"
    by (simp_all add: example_fetch example_cycle)
  note t = currency_format [of "- 125000" tx_in example_env example_status
      "\<lparr> direction = ''In'', confirmed = False, displayAmount = ''1,250.00'',
         displayTime = example_time, counterpartyAddress = Some ''C'' \<rparr>"
      "\<lparr> availableBalance = 125000, lockedAmount = 0 \<rparr>" example_view]
  show ?thesis
    using t g by (simp add: a c example_rows example_cycle)
qed

end
